theory Spec2Isabelle
  imports Complex_Main
begin

section \<open>Data model of \<^verbatim>\<open>video_stream_abc.py\<close>\<close>

text \<open>
  The pipeline object \<^verbatim>\<open>VideoStreamABC\<close> owns two \<^verbatim>\<open>StoppableThread\<close>s (grab and
  proc), the shared attribute \<^verbatim>\<open>frame\<close> and its lock. Everything the two loops do to
  a collaborator (the video source, the lock and the shared slot, the counters, the
  pacers, the console, the window system, the transform hook) is appended to a trace, in
  program order, so that statements about order and number of effects are statements about
  that list. Python's \<^verbatim>\<open>None\<close> is \<open>None\<close>; a frame is a value of an arbitrary type
  \<open>'f\<close>.
\<close>

definition WINDOW_NAME :: string where
  "WINDOW_NAME = ''cam''"


definition DROPPED_FRAME_WAIT_MSEC :: int where
  "DROPPED_FRAME_WAIT_MSEC = 10"

datatype worker = GRAB | PROC

datatype chan = Stdout | Stderr

text \<open>
  The six lines printed by \<^verbatim>\<open>stop()\<close>. The elapsed time and the rate are wall-clock
  floats formatted with \<^verbatim>\<open>{:.2f}\<close>; the line records which statistic is printed and
  for which worker, the frame count line also its integer.
\<close>

datatype stat_line = ElapsedTime worker | ApproxFPS worker | NFrames worker int

text \<open>
  The exceptions the module raises: \<^verbatim>\<open>sys.exit(0)\<close> raises \<^verbatim>\<open>SystemExit(0)\<close> and the
  abstract hook raises \<^verbatim>\<open>Exception(msg)\<close>. \<open>mro\<close> lists the classes an exception is an
  instance of, as Python's built-in hierarchy has them, and \<open>isinstance\<close> is the test an
  \<^verbatim>\<open>except\<close> clause makes.
\<close>

datatype pyexc = SystemExit int | Exception string

fun mro :: "pyexc \<Rightarrow> string list" where
  "mro (SystemExit code) = [''SystemExit'', ''BaseException'', ''object'']"
| "mro (Exception msg) = [''Exception'', ''BaseException'', ''object'']"

definition isinstance :: "pyexc \<Rightarrow> string \<Rightarrow> bool" where
  "isinstance e cls = (cls \<in> set (mro e))"

datatype 'f event =
    StreamRead bool "'f option"
  | LockAcquire worker
  | LockRelease worker
  | SlotWrite worker "'f option"
  | SlotRead worker "'f option"
  | PacerStart worker
  | PacerUpdate worker
  | FpsStart worker
  | FpsUpdate worker
  | FpsStop worker
  | Print chan stat_line
  | WaitKey int
  | ProcessFrame "'f option"
  | Imshow string "'f option"
  | NamedWindow string
  | SetWindowProperty string
  | DestroyAllWindows

text \<open>
  Modelled from the spec: class \<^verbatim>\<open>FPS\<close> (module \<^verbatim>\<open>fps\<close> is imported but is not among
  the sources). The spec's ThroughputCounter has a frame count that \<^verbatim>\<open>start()\<close> resets
  to 0 and \<^verbatim>\<open>update()\<close> increments by one; \<^verbatim>\<open>stop()\<close> only records a time stamp. The
  time stamps are readings of the wall clock and are not modelled; the calls are recorded
  in the trace.
\<close>

record FPS =
  n_frames :: int

text \<open>
  Modelled from the spec: the constructor of \<^verbatim>\<open>FPS\<close>, which is not among the sources.
  The proc loop reads \<^verbatim>\<open>n_frames\<close> of the grab counter before the grab worker may have
  started it, so the attribute exists from construction on; its value then is taken to be 0.
\<close>

definition FPS_init :: FPS where
  "FPS_init = \<lparr>n_frames = 0\<rparr>"

text \<open>
  Modelled from the spec: \<^verbatim>\<open>FPS.start()\<close>, not among the sources; it records the current
  time and resets the count to 0.
\<close>

definition FPS_start :: "FPS \<Rightarrow> FPS" where
  "FPS_start c = c\<lparr>n_frames := 0\<rparr>"

text \<open>
  Modelled from the spec: \<^verbatim>\<open>FPS.update()\<close>, not among the sources; it increments the
  count by one.
\<close>

definition FPS_update :: "FPS \<Rightarrow> FPS" where
  "FPS_update c = c\<lparr>n_frames := n_frames c + 1\<rparr>"

text \<open>
  Modelled from the spec: \<^verbatim>\<open>FPS.stop()\<close>, not among the sources; it records the current
  time and leaves the count as it is.
\<close>

definition FPS_stop :: "FPS \<Rightarrow> FPS" where
  "FPS_stop c = c"

text \<open>
  Modelled from the spec: class \<^verbatim>\<open>Pacer\<close> (module \<^verbatim>\<open>pacer\<close> is imported but is not
  among the sources). It is constructed with a target frequency; \<^verbatim>\<open>start()\<close> and
  \<^verbatim>\<open>update()\<close> read the clock and sleep, which the trace records as calls.
\<close>

record Pacer =
  pace :: int

text \<open>
  Modelled from the spec: the constructor of \<^verbatim>\<open>Pacer\<close>, not among the sources; it keeps
  the target frequency.
\<close>

definition Pacer_init :: "int \<Rightarrow> Pacer" where
  "Pacer_init p = \<lparr>pace = p\<rparr>"

text \<open>\<^verbatim>\<open>StoppableThread\<close>: the stop event, the counter and the optional pacer.\<close>

record StoppableThread =
  stop_event :: bool
  fps :: FPS
  pacer :: "Pacer option"

text \<open>\<^verbatim>\<open>if pace:\<close> is false for \<^verbatim>\<open>None\<close> and for 0.\<close>

definition StoppableThread_init :: "int option \<Rightarrow> StoppableThread" where
  "StoppableThread_init p =
     \<lparr>stop_event = False,
      fps = FPS_init,
      pacer = (case p of None \<Rightarrow> None
               | Some q \<Rightarrow> if q \<noteq> 0 then Some (Pacer_init q) else None)\<rparr>"

definition StoppableThread_stop :: "StoppableThread \<Rightarrow> StoppableThread" where
  "StoppableThread_stop t = t\<lparr>stop_event := True\<rparr>"

definition is_stopped :: "StoppableThread \<Rightarrow> bool" where
  "is_stopped t = stop_event t"

text \<open>
  The pipeline object. \<open>n_dropped_frames\<close> and \<open>prev_count\<close> are the local variables of
  \<^verbatim>\<open>grab_thread_loop\<close> and \<^verbatim>\<open>proc_thread_loop\<close>, kept in the state because the loops
  are modelled one iteration at a time. A subclass adds its attributes by extending the
  record, and every function below works on any extension.
\<close>

record 'f VideoStreamABC =
  frame :: "'f option"
  grab_thread :: StoppableThread
  proc_thread :: StoppableThread
  n_dropped_frames :: int
  prev_count :: int
  trace :: "'f event list"

definition VideoStreamABC_init :: "bool \<Rightarrow> int option \<Rightarrow> int option \<Rightarrow> 'f VideoStreamABC" where
  "VideoStreamABC_init full_screen grab_fps proc_fps =
     \<lparr>frame = None,
      grab_thread = StoppableThread_init grab_fps,
      proc_thread = StoppableThread_init proc_fps,
      n_dropped_frames = 0,
      prev_count = 0,
      trace = (if full_screen
               then [NamedWindow WINDOW_NAME, SetWindowProperty WINDOW_NAME]
               else [])\<rparr>"

section \<open>Effects on the collaborators\<close>

definition emit :: "'f event \<Rightarrow> ('f, 'z) VideoStreamABC_scheme \<Rightarrow> ('f, 'z) VideoStreamABC_scheme" where
  "emit e s = s\<lparr>trace := trace s @ [e]\<rparr>"

definition thread_upd ::
  "worker \<Rightarrow> (StoppableThread \<Rightarrow> StoppableThread) \<Rightarrow>
   ('f, 'z) VideoStreamABC_scheme \<Rightarrow> ('f, 'z) VideoStreamABC_scheme" where
  "thread_upd w g s =
     (case w of GRAB \<Rightarrow> s\<lparr>grab_thread := g (grab_thread s)\<rparr>
      | PROC \<Rightarrow> s\<lparr>proc_thread := g (proc_thread s)\<rparr>)"

definition call_fps_start :: "worker \<Rightarrow> ('f, 'z) VideoStreamABC_scheme \<Rightarrow> ('f, 'z) VideoStreamABC_scheme" where
  "call_fps_start w s = emit (FpsStart w) (thread_upd w (\<lambda>t. t\<lparr>fps := FPS_start (fps t)\<rparr>) s)"

definition call_fps_update :: "worker \<Rightarrow> ('f, 'z) VideoStreamABC_scheme \<Rightarrow> ('f, 'z) VideoStreamABC_scheme" where
  "call_fps_update w s = emit (FpsUpdate w) (thread_upd w (\<lambda>t. t\<lparr>fps := FPS_update (fps t)\<rparr>) s)"

definition call_fps_stop :: "worker \<Rightarrow> ('f, 'z) VideoStreamABC_scheme \<Rightarrow> ('f, 'z) VideoStreamABC_scheme" where
  "call_fps_stop w s = emit (FpsStop w) (thread_upd w (\<lambda>t. t\<lparr>fps := FPS_stop (fps t)\<rparr>) s)"

definition call_pacer_start :: "worker \<Rightarrow> ('f, 'z) VideoStreamABC_scheme \<Rightarrow> ('f, 'z) VideoStreamABC_scheme" where
  "call_pacer_start w s = emit (PacerStart w) s"

definition call_pacer_update :: "worker \<Rightarrow> ('f, 'z) VideoStreamABC_scheme \<Rightarrow> ('f, 'z) VideoStreamABC_scheme" where
  "call_pacer_update w s = emit (PacerUpdate w) s"

text \<open>
  \<^verbatim>\<open>self.frame_lock.acquire(); self.frame = v; self.frame_lock.release()\<close> and the
  matching read. An iteration runs without interleaving, so the lock is free whenever it
  is acquired.
\<close>

definition set_frame ::
  "worker \<Rightarrow> 'f option \<Rightarrow> ('f, 'z) VideoStreamABC_scheme \<Rightarrow> ('f, 'z) VideoStreamABC_scheme" where
  "set_frame w v s = emit (SlotWrite w v) (s\<lparr>frame := v\<rparr>)"

definition locked_set_frame ::
  "worker \<Rightarrow> 'f option \<Rightarrow> ('f, 'z) VideoStreamABC_scheme \<Rightarrow> ('f, 'z) VideoStreamABC_scheme" where
  "locked_set_frame w v s = emit (LockRelease w) (set_frame w v (emit (LockAcquire w) s))"

definition locked_get_frame ::
  "worker \<Rightarrow> ('f, 'z) VideoStreamABC_scheme \<Rightarrow> 'f option \<times> ('f, 'z) VideoStreamABC_scheme" where
  "locked_get_frame w s =
     (let s1 = emit (LockAcquire w) s;
          v = frame s1;
          s2 = emit (SlotRead w v) s1
      in (v, emit (LockRelease w) s2))"

section \<open>\<^verbatim>\<open>VideoStreamABC.stop\<close>\<close>

text \<open>
  The method stops both counters, prints the six lines with \<^verbatim>\<open>print\<close> (standard
  output; \<^verbatim>\<open>eprint\<close> is defined in the module but not called), sets both stop events,
  destroys the windows and ends with \<^verbatim>\<open>sys.exit(0)\<close>, so it always raises.
\<close>

definition stop ::
  "('f, 'z) VideoStreamABC_scheme \<Rightarrow> (pyexc + unit) \<times> ('f, 'z) VideoStreamABC_scheme" where
  "stop s =
     (let s1 = call_fps_stop GRAB s;
          s2 = call_fps_stop PROC s1;
          s3 = emit (Print Stdout (ElapsedTime GRAB)) s2;
          s4 = emit (Print Stdout (ApproxFPS GRAB)) s3;
          s5 = emit (Print Stdout (NFrames GRAB (n_frames (fps (grab_thread s4))))) s4;
          s6 = emit (Print Stdout (ElapsedTime PROC)) s5;
          s7 = emit (Print Stdout (ApproxFPS PROC)) s6;
          s8 = emit (Print Stdout (NFrames PROC (n_frames (fps (proc_thread s7))))) s7;
          s9 = thread_upd GRAB StoppableThread_stop s8;
          s10 = thread_upd PROC StoppableThread_stop s9;
          s11 = emit DestroyAllWindows s10
      in (Inl (SystemExit 0), s11))"

section \<open>\<^verbatim>\<open>VideoStreamABC.grab_thread_loop\<close>\<close>

text \<open>The statements before the \<^verbatim>\<open>while\<close>.\<close>

definition grab_thread_loop_init ::
  "('f, 'z) VideoStreamABC_scheme \<Rightarrow> ('f, 'z) VideoStreamABC_scheme" where
  "grab_thread_loop_init s =
     (let s1 = (if pacer (grab_thread s) \<noteq> None then call_pacer_start GRAB s else s);
          s2 = call_fps_start GRAB s1
      in s2\<lparr>n_dropped_frames := 0\<rparr>)"

text \<open>
  One pass through the body of the \<^verbatim>\<open>while\<close>, given what \<^verbatim>\<open>self.stream.read()\<close>
  returns. The block that counted dropped frames is commented out in the source, so
  \<open>got_one\<close> is read and never used.
\<close>

definition grab_iter ::
  "bool \<times> 'f option \<Rightarrow> ('f, 'z) VideoStreamABC_scheme \<Rightarrow> ('f, 'z) VideoStreamABC_scheme" where
  "grab_iter r s =
     (case r of (got_one, fr) \<Rightarrow>
        (let s1 = emit (StreamRead got_one fr) s;
             s2 = locked_set_frame GRAB fr s1;
             s3 = (if pacer (grab_thread s2) \<noteq> None then call_pacer_update GRAB s2 else s2)
         in call_fps_update GRAB s3))"



section \<open>\<^verbatim>\<open>VideoStreamABC.proc_thread_loop\<close>\<close>

text \<open>
  The transform hook is the method \<^verbatim>\<open>process_frame\<close> of the subclass: it gets the frame
  and the whole object, and returns an image or raises.
\<close>

type_synonym ('f, 'z) hook =
  "'f option \<Rightarrow> ('f, 'z) VideoStreamABC_scheme \<Rightarrow>
   (pyexc + 'f option) \<times> ('f, 'z) VideoStreamABC_scheme"

definition proc_thread_loop_init ::
  "('f, 'z) VideoStreamABC_scheme \<Rightarrow> ('f, 'z) VideoStreamABC_scheme" where
  "proc_thread_loop_init s =
     (let s1 = (if pacer (proc_thread s) \<noteq> None then call_pacer_start PROC s else s);
          s2 = call_fps_start PROC s1
      in s2\<lparr>prev_count := 0\<rparr>)"

text \<open>The last statement of the loop body, outside the \<^verbatim>\<open>if count > prev_count\<close>.\<close>

definition proc_pace ::
  "('f, 'z) VideoStreamABC_scheme \<Rightarrow> (pyexc + unit) \<times> ('f, 'z) VideoStreamABC_scheme" where
  "proc_pace s =
     (Inr (), if pacer (proc_thread s) \<noteq> None then call_pacer_update PROC s else s)"

text \<open>
  One pass through the body of the \<^verbatim>\<open>while\<close>. \<open>key\<close> is what \<^verbatim>\<open>cv2.waitKey(1)\<close>
  returns if this pass calls it; \<^verbatim>\<open>or\<close> evaluates it only when the frame is not
  \<^verbatim>\<open>None\<close>. An exception raised by \<^verbatim>\<open>stop()\<close> or by the hook leaves the body at once.
\<close>

definition proc_iter ::
  "('f, 'z) hook \<Rightarrow> int \<Rightarrow> ('f, 'z) VideoStreamABC_scheme \<Rightarrow>
   (pyexc + unit) \<times> ('f, 'z) VideoStreamABC_scheme" where
  "proc_iter process_frame key s =
     (let count = n_frames (fps (grab_thread s)) in
      if count > prev_count s then
        (case locked_get_frame PROC s of (fr, s1) \<Rightarrow>
           (case (if fr = None then stop s1
                  else (let s2 = emit (WaitKey 1) s1
                        in if key = 27 then stop s2 else (Inr (), s2))) of
              (Inl e, s3) \<Rightarrow> (Inl e, s3)
            | (Inr _, s3) \<Rightarrow>
                (case process_frame fr (emit (ProcessFrame fr) s3) of
                   (Inl e, s4) \<Rightarrow> (Inl e, s4)
                 | (Inr img, s4) \<Rightarrow>
                     (let s5 = emit (Imshow WINDOW_NAME img) s4;
                          s6 = s5\<lparr>prev_count := count\<rparr>;
                          s7 = call_fps_update PROC s6
                      in proc_pace s7))))
      else proc_pace s)"

text \<open>
  The \<^verbatim>\<open>while not self.proc_thread.is_stopped()\<close> loop, run on the key codes the window
  system would deliver, one per pass.
\<close>

fun proc_loop ::
  "('f, 'z) hook \<Rightarrow> int list \<Rightarrow> ('f, 'z) VideoStreamABC_scheme \<Rightarrow>
   (pyexc + unit) \<times> ('f, 'z) VideoStreamABC_scheme" where
  "proc_loop process_frame [] s = (Inr (), s)"
| "proc_loop process_frame (k # ks) s =
     (if is_stopped (proc_thread s) then (Inr (), s)
      else (case proc_iter process_frame k s of
              (Inl e, s') \<Rightarrow> (Inl e, s')
            | (Inr _, s') \<Rightarrow> proc_loop process_frame ks s'))"

definition proc_thread_loop ::
  "('f, 'z) hook \<Rightarrow> int list \<Rightarrow> ('f, 'z) VideoStreamABC_scheme \<Rightarrow>
   (pyexc + unit) \<times> ('f, 'z) VideoStreamABC_scheme" where
  "proc_thread_loop process_frame ks s = proc_loop process_frame ks (proc_thread_loop_init s)"

section \<open>The transform hooks\<close>

text \<open>\<^verbatim>\<open>VideoStreamABC.process_frame\<close>: the base class raises a plain \<^verbatim>\<open>Exception\<close>.\<close>

definition process_frame :: "('f, 'z) hook" where
  "process_frame fr s = (Inl (Exception ''Abstract method process_frame() not implemented!''), s)"

text \<open>\<^verbatim>\<open>VisualizeOnly.process_frame\<close> returns the frame as it is.\<close>

definition VisualizeOnly_process_frame :: "('f, 'z) hook" where
  "VisualizeOnly_process_frame fr s = (Inr fr, s)"

section \<open>\<^verbatim>\<open>avg_frames.py\<close>\<close>

text \<open>
  The functions of \<^verbatim>\<open>numpy\<close> and \<^verbatim>\<open>cv2\<close> that \<^verbatim>\<open>AvgFrames\<close> calls are library code
  and are taken as parameters. \<^verbatim>\<open>cv2.accumulateWeighted(src, dst, alpha)\<close> updates
  \<open>dst\<close> in place and returns it.
\<close>

record 'f cvlib =
  numpy_float32 :: "'f option \<Rightarrow> 'f"
  cv2_accumulateWeighted :: "'f \<Rightarrow> 'f \<Rightarrow> rat \<Rightarrow> 'f"
  cv2_convertScaleAbs :: "'f \<Rightarrow> 'f"

definition ALPHA :: rat where
  "ALPHA = 1 / 10"

record 'f AvgFrames = "'f VideoStreamABC" +
  avg_frame :: "'f option"

text \<open>\<^verbatim>\<open>AvgFrames.__init__\<close> sets \<^verbatim>\<open>avg_frame\<close> and calls the base constructor with its defaults.\<close>

definition AvgFrames_init :: "'f AvgFrames" where
  "AvgFrames_init =
     VideoStreamABC.extend (VideoStreamABC_init False (Some 30) (Some 30))
       (AvgFrames.fields None)"

text \<open>
  \<^verbatim>\<open>AvgFrames.process_frame\<close>. In the \<^verbatim>\<open>else\<close> branch the result of
  \<^verbatim>\<open>accumulateWeighted\<close> is assigned to \<^verbatim>\<open>self.frame\<close>, the attribute the grab loop
  writes under the lock; \<^verbatim>\<open>self.avg_frame\<close> is the array updated in place.
\<close>

definition AvgFrames_process_frame ::
  "'f cvlib \<Rightarrow> 'f option \<Rightarrow> ('f, 'z) AvgFrames_scheme \<Rightarrow>
   (pyexc + 'f option) \<times> ('f, 'z) AvgFrames_scheme" where
  "AvgFrames_process_frame lib fr s =
     (let f32 = numpy_float32 lib fr in
      case avg_frame s of
        None \<Rightarrow>
          (let s1 = s\<lparr>avg_frame := Some f32\<rparr>
           in (Inr (Some (cv2_convertScaleAbs lib f32)), s1))
      | Some avg \<Rightarrow>
          (let acc = cv2_accumulateWeighted lib f32 avg ALPHA;
               s1 = s\<lparr>avg_frame := Some acc\<rparr>;
               s2 = set_frame PROC (Some acc) s1
           in (Inr (Some (cv2_convertScaleAbs lib acc)), s2)))"

text \<open>
  An instance of the library for running the transform on numbers: an image is the list
  of its samples, the arithmetic is exact, and \<^verbatim>\<open>convertScaleAbs\<close> takes absolute values
  and saturates at 255.
\<close>

definition exact_lib :: "rat list cvlib" where
  "exact_lib =
     \<lparr>numpy_float32 = (\<lambda>fr. case fr of None \<Rightarrow> [] | Some px \<Rightarrow> px),
      cv2_accumulateWeighted = (\<lambda>src dst a. map2 (\<lambda>x d. (1 - a) * d + a * x) src dst),
      cv2_convertScaleAbs = map (\<lambda>x. min 255 \<bar>x\<bar>)\<rparr>"

section \<open>The two workers together\<close>

text \<open>
  \<^verbatim>\<open>start()\<close> starts the grab thread and then the proc thread; each runs the statements
  before its \<^verbatim>\<open>while\<close>.
\<close>

definition start :: "('f, 'z) VideoStreamABC_scheme \<Rightarrow> ('f, 'z) VideoStreamABC_scheme" where
  "start s = proc_thread_loop_init (grab_thread_loop_init s)"

text \<open>
  A schedule lists whole passes of the two loop bodies in the order they run: a grab pass
  with what \<^verbatim>\<open>read()\<close> returns, a proc pass with the key code. A worker whose stop event
  is set has left its loop, and the proc worker is dead once an exception has left its
  body; the exception is kept beside the state.
\<close>

datatype 'f step = GrabStep bool "'f option" | ProcStep int

fun run ::
  "('f, 'z) hook \<Rightarrow> 'f step list \<Rightarrow> pyexc option \<times> ('f, 'z) VideoStreamABC_scheme \<Rightarrow>
   pyexc option \<times> ('f, 'z) VideoStreamABC_scheme" where
  "run pf [] c = c"
| "run pf (GrabStep got_one fr # sch) (x, s) =
     run pf sch (x, if is_stopped (grab_thread s) then s else grab_iter (got_one, fr) s)"
| "run pf (ProcStep key # sch) (x, s) =
     (if x \<noteq> None \<or> is_stopped (proc_thread s) then run pf sch (x, s)
      else (case proc_iter pf key s of
              (Inl e, s') \<Rightarrow> run pf sch (Some e, s')
            | (Inr _, s') \<Rightarrow> run pf sch (None, s')))"

section \<open>Reading the trace\<close>

text \<open>The statistics lines printed on a channel, in order.\<close>

definition lines_of :: "chan \<Rightarrow> 'f event \<Rightarrow> stat_line list" where
  "lines_of ch e = (case e of Print c l \<Rightarrow> if c = ch then [l] else [] | _ \<Rightarrow> [])"

definition stat_lines :: "chan \<Rightarrow> 'f event list \<Rightarrow> stat_line list" where
  "stat_lines ch tr = concat (map (lines_of ch) tr)"

text \<open>The frames handed to the transform hook, in order.\<close>

definition frames_of :: "'f event \<Rightarrow> 'f option list" where
  "frames_of e = (case e of ProcessFrame fr \<Rightarrow> [fr] | _ \<Rightarrow> [])"

definition transforms :: "'f event list \<Rightarrow> 'f option list" where
  "transforms tr = concat (map frames_of tr)"

text \<open>The number of \<^verbatim>\<open>cv2.waitKey\<close> calls and of \<^verbatim>\<open>cv2.destroyAllWindows\<close> calls.\<close>

definition polls_of :: "'f event \<Rightarrow> nat" where
  "polls_of e = (case e of WaitKey d \<Rightarrow> 1 | _ \<Rightarrow> 0)"

definition key_polls :: "'f event list \<Rightarrow> nat" where
  "key_polls tr = sum_list (map polls_of tr)"

definition destroys :: "'f event list \<Rightarrow> nat" where
  "destroys tr = count_list tr DestroyAllWindows"

text \<open>
  What the theorems about the proc loop ask of a hook: it does not call the hook or
  \<^verbatim>\<open>waitKey\<close> itself and leaves the loop variable and the grab worker alone. Writing
  \<^verbatim>\<open>self.frame\<close> or attributes of its own is allowed.
\<close>

definition hook_local :: "('f, 'z) hook \<Rightarrow> bool" where
  "hook_local pf =
     (\<forall>fr s. transforms (trace (snd (pf fr s))) = transforms (trace s) \<and>
             key_polls (trace (snd (pf fr s))) = key_polls (trace s) \<and>
             prev_count (snd (pf fr s)) = prev_count s \<and>
             grab_thread (snd (pf fr s)) = grab_thread s)"

section \<open>The two loops statement by statement\<close>

text \<open>
  The two threads share the slot and the grab counter, and the lock covers only the slot
  access, so a pass of one loop can be cut by the other wherever it touches neither. The
  grab pass is cut between the slot write (lines 95 to 115) and what follows it: the sleep
  in \<^verbatim>\<open>pacer.update()\<close> and the counter update (lines 116 to 118).
\<close>

definition grab_write ::
  "bool \<times> 'f option \<Rightarrow> ('f, 'z) VideoStreamABC_scheme \<Rightarrow> ('f, 'z) VideoStreamABC_scheme" where
  "grab_write r s =
     (case r of (got_one, fr) \<Rightarrow>
        (let s1 = emit (StreamRead got_one fr) s
         in locked_set_frame GRAB fr s1))"

definition grab_count ::
  "('f, 'z) VideoStreamABC_scheme \<Rightarrow> ('f, 'z) VideoStreamABC_scheme" where
  "grab_count s =
     (let s3 = (if pacer (grab_thread s) \<noteq> None then call_pacer_update GRAB s else s)
      in call_fps_update GRAB s3)"












section \<open>Basic facts about the effects\<close>

lemmas fx_defs = emit_def thread_upd_def call_fps_start_def call_fps_update_def call_fps_stop_def
  call_pacer_start_def call_pacer_update_def set_frame_def locked_set_frame_def
  locked_get_frame_def FPS_start_def FPS_update_def FPS_stop_def StoppableThread_stop_def
  is_stopped_def

lemmas tr_defs = stat_lines_def lines_of_def transforms_def frames_of_def key_polls_def
  polls_of_def destroys_def

lemmas init_defs = VideoStreamABC_init_def StoppableThread_init_def FPS_init_def Pacer_init_def
  start_def grab_thread_loop_init_def proc_thread_loop_init_def

lemma stat_lines_append: "stat_lines ch (a @ b) = stat_lines ch a @ stat_lines ch b"
  by (simp add: stat_lines_def)

lemma transforms_append: "transforms (a @ b) = transforms a @ transforms b"
  by (simp add: transforms_def)

lemma key_polls_append: "key_polls (a @ b) = key_polls a + key_polls b"
  by (simp add: key_polls_def)

lemma destroys_append: "destroys (a @ b) = destroys a + destroys b"
  by (induction a) (simp_all add: destroys_def)

subsection \<open>\<open>stop\<close>\<close>

lemma stop_fst: "fst (stop s) = Inl (SystemExit 0)"
  by (simp add: stop_def Let_def)

lemma stop_trace:
  "trace (snd (stop s)) = trace s @
     [FpsStop GRAB, FpsStop PROC,
      Print Stdout (ElapsedTime GRAB), Print Stdout (ApproxFPS GRAB),
      Print Stdout (NFrames GRAB (n_frames (fps (grab_thread s)))),
      Print Stdout (ElapsedTime PROC), Print Stdout (ApproxFPS PROC),
      Print Stdout (NFrames PROC (n_frames (fps (proc_thread s)))),
      DestroyAllWindows]"
  by (simp add: stop_def fx_defs Let_def)

lemma stop_grab_thread: "grab_thread (snd (stop s)) = (grab_thread s)\<lparr>stop_event := True\<rparr>"
  by (simp add: stop_def fx_defs Let_def)

lemma stop_proc_thread: "proc_thread (snd (stop s)) = (proc_thread s)\<lparr>stop_event := True\<rparr>"
  by (simp add: stop_def fx_defs Let_def)

lemma stop_other:
  "frame (snd (stop s)) = frame s"
  "prev_count (snd (stop s)) = prev_count s"
  "n_dropped_frames (snd (stop s)) = n_dropped_frames s"
  by (simp_all add: stop_def fx_defs Let_def)

lemma stop_stat_lines_Stdout:
  "stat_lines Stdout (trace (snd (stop s))) = stat_lines Stdout (trace s) @
     [ElapsedTime GRAB, ApproxFPS GRAB, NFrames GRAB (n_frames (fps (grab_thread s))),
      ElapsedTime PROC, ApproxFPS PROC, NFrames PROC (n_frames (fps (proc_thread s)))]"
  by (simp add: stop_trace stat_lines_append) (simp add: stat_lines_def lines_of_def)

lemma stop_stat_lines_Stderr:
  "stat_lines Stderr (trace (snd (stop s))) = stat_lines Stderr (trace s)"
  by (simp add: stop_trace stat_lines_append) (simp add: stat_lines_def lines_of_def)

lemma stop_destroys: "destroys (trace (snd (stop s))) = destroys (trace s) + 1"
  by (simp add: stop_trace destroys_append) (simp add: destroys_def)

lemma stop_transforms: "transforms (trace (snd (stop s))) = transforms (trace s)"
  by (simp add: stop_trace transforms_append) (simp add: transforms_def frames_of_def)

lemma stop_key_polls: "key_polls (trace (snd (stop s))) = key_polls (trace s)"
  by (simp add: stop_trace key_polls_append) (simp add: key_polls_def polls_of_def)

subsection \<open>One pass of the grab loop\<close>

lemma grab_iter_trace:
  "trace (grab_iter (got_one, fr) s) =
     trace s @ [StreamRead got_one fr, LockAcquire GRAB, SlotWrite GRAB fr, LockRelease GRAB] @
     (if pacer (grab_thread s) \<noteq> None then [PacerUpdate GRAB] else []) @ [FpsUpdate GRAB]"
  by (simp add: grab_iter_def fx_defs Let_def)

lemma grab_iter_fields:
  "frame (grab_iter (got_one, fr) s) = fr"
  "grab_thread (grab_iter (got_one, fr) s) =
     (grab_thread s)\<lparr>fps := (fps (grab_thread s))\<lparr>n_frames := n_frames (fps (grab_thread s)) + 1\<rparr>\<rparr>"
  "proc_thread (grab_iter (got_one, fr) s) = proc_thread s"
  "prev_count (grab_iter (got_one, fr) s) = prev_count s"
  "n_dropped_frames (grab_iter (got_one, fr) s) = n_dropped_frames s"
  by (simp_all add: grab_iter_def fx_defs Let_def)

subsection \<open>One pass of the proc loop, branch by branch\<close>

lemma locked_get_frame_fields:
  "fst (locked_get_frame w s) = frame s"
  "trace (snd (locked_get_frame w s)) =
     trace s @ [LockAcquire w, SlotRead w (frame s), LockRelease w]"
  "frame (snd (locked_get_frame w s)) = frame s"
  "grab_thread (snd (locked_get_frame w s)) = grab_thread s"
  "proc_thread (snd (locked_get_frame w s)) = proc_thread s"
  "prev_count (snd (locked_get_frame w s)) = prev_count s"
  by (simp_all add: locked_get_frame_def emit_def Let_def)

lemma proc_iter_idle:
  "\<not> prev_count s < n_frames (fps (grab_thread s)) \<Longrightarrow>
   proc_iter pf key s =
     (Inr (), if pacer (proc_thread s) \<noteq> None then emit (PacerUpdate PROC) s else s)"
  by (simp add: proc_iter_def proc_pace_def call_pacer_update_def Let_def)

lemma proc_iter_absent:
  "prev_count s < n_frames (fps (grab_thread s)) \<Longrightarrow> frame s = None \<Longrightarrow>
   proc_iter pf key s = stop (snd (locked_get_frame PROC s))"
  by (simp add: proc_iter_def locked_get_frame_def emit_def Let_def stop_def
      split: prod.splits sum.splits)

lemma proc_iter_cancel:
  "prev_count s < n_frames (fps (grab_thread s)) \<Longrightarrow> frame s = Some f \<Longrightarrow>
   proc_iter pf 27 s = stop (emit (WaitKey 1) (snd (locked_get_frame PROC s)))"
  by (simp add: proc_iter_def locked_get_frame_def emit_def Let_def stop_def
      split: prod.splits sum.splits)

lemma proc_iter_process:
  "prev_count s < n_frames (fps (grab_thread s)) \<Longrightarrow> frame s = Some f \<Longrightarrow> key \<noteq> 27 \<Longrightarrow>
   proc_iter pf key s =
     (case pf (Some f)
             (emit (ProcessFrame (Some f)) (emit (WaitKey 1) (snd (locked_get_frame PROC s)))) of
        (Inl e, s4) \<Rightarrow> (Inl e, s4)
      | (Inr img, s4) \<Rightarrow>
          proc_pace (call_fps_update PROC
            ((emit (Imshow WINDOW_NAME img) s4)\<lparr>prev_count := n_frames (fps (grab_thread s))\<rparr>)))"
  by (simp add: proc_iter_def locked_get_frame_def emit_def Let_def split: prod.splits sum.splits)

lemma proc_iter_idle_effects:
  assumes "\<not> prev_count s < n_frames (fps (grab_thread s))"
  shows "fst (proc_iter pf key s) = Inr ()"
    and "transforms (trace (snd (proc_iter pf key s))) = transforms (trace s)"
    and "key_polls (trace (snd (proc_iter pf key s))) = key_polls (trace s)"
    and "prev_count (snd (proc_iter pf key s)) = prev_count s"
    and "grab_thread (snd (proc_iter pf key s)) = grab_thread s"
    and "proc_thread (snd (proc_iter pf key s)) = proc_thread s"
  using assms by (simp_all add: proc_iter_idle emit_def tr_defs)

lemma proc_iter_absent_effects:
  assumes "prev_count s < n_frames (fps (grab_thread s))" and "frame s = None"
  shows "fst (proc_iter pf key s) = Inl (SystemExit 0)"
    and "transforms (trace (snd (proc_iter pf key s))) = transforms (trace s)"
    and "key_polls (trace (snd (proc_iter pf key s))) = key_polls (trace s)"
    and "prev_count (snd (proc_iter pf key s)) = prev_count s"
    and "grab_thread (snd (proc_iter pf key s)) = (grab_thread s)\<lparr>stop_event := True\<rparr>"
  using assms
  by (simp_all add: proc_iter_absent stop_fst stop_transforms stop_key_polls stop_other
      stop_grab_thread locked_get_frame_fields transforms_append key_polls_append)
     (simp_all add: tr_defs)

lemma proc_iter_cancel_effects:
  assumes "prev_count s < n_frames (fps (grab_thread s))" and "frame s = Some f"
  shows "fst (proc_iter pf 27 s) = Inl (SystemExit 0)"
    and "transforms (trace (snd (proc_iter pf 27 s))) = transforms (trace s)"
    and "key_polls (trace (snd (proc_iter pf 27 s))) = key_polls (trace s) + 1"
    and "prev_count (snd (proc_iter pf 27 s)) = prev_count s"
    and "grab_thread (snd (proc_iter pf 27 s)) = (grab_thread s)\<lparr>stop_event := True\<rparr>"
  using assms
  by (simp_all add: proc_iter_cancel stop_fst stop_transforms stop_key_polls stop_other
      stop_grab_thread locked_get_frame_fields emit_def transforms_append key_polls_append)
     (simp_all add: tr_defs)

lemma proc_iter_process_effects:
  assumes loc: "hook_local pf"
    and adv: "prev_count s < n_frames (fps (grab_thread s))"
    and fr: "frame s = Some f" and key: "key \<noteq> 27"
  shows "transforms (trace (snd (proc_iter pf key s))) = transforms (trace s) @ [Some f]"
    and "key_polls (trace (snd (proc_iter pf key s))) = key_polls (trace s) + 1"
    and "grab_thread (snd (proc_iter pf key s)) = grab_thread s"
    and "fst (proc_iter pf key s) = Inr () \<Longrightarrow>
           prev_count (snd (proc_iter pf key s)) = n_frames (fps (grab_thread s))"
    and "fst (proc_iter pf key s) \<noteq> Inr () \<Longrightarrow>
           prev_count (snd (proc_iter pf key s)) = prev_count s"
proof -
  define S where
    "S = emit (ProcessFrame (Some f)) (emit (WaitKey 1) (snd (locked_get_frame PROC s)))"
  have S: "transforms (trace S) = transforms (trace s) @ [Some f]"
    "key_polls (trace S) = key_polls (trace s) + 1"
    "prev_count S = prev_count s" "grab_thread S = grab_thread s"
    by (simp_all add: S_def locked_get_frame_def emit_def Let_def tr_defs)
  obtain r S' where pf: "pf (Some f) S = (r, S')"
    by (cases "pf (Some f) S")
  from loc have "transforms (trace (snd (pf (Some f) S))) = transforms (trace S)"
    "key_polls (trace (snd (pf (Some f) S))) = key_polls (trace S)"
    "prev_count (snd (pf (Some f) S)) = prev_count S"
    "grab_thread (snd (pf (Some f) S)) = grab_thread S"
    by (simp_all add: hook_local_def)
  with pf S have S': "transforms (trace S') = transforms (trace s) @ [Some f]"
    "key_polls (trace S') = key_polls (trace s) + 1"
    "prev_count S' = prev_count s" "grab_thread S' = grab_thread s"
    by simp_all
  have step: "proc_iter pf key s =
      (case r of Inl e \<Rightarrow> (Inl e, S')
       | Inr img \<Rightarrow> proc_pace (call_fps_update PROC
           ((emit (Imshow WINDOW_NAME img) S')\<lparr>prev_count := n_frames (fps (grab_thread s))\<rparr>)))"
    using proc_iter_process [OF adv fr key, of pf] pf
    by (simp add: S_def split: sum.splits)
  show "transforms (trace (snd (proc_iter pf key s))) = transforms (trace s) @ [Some f]"
    using S' by (cases r) (simp_all add: step proc_pace_def fx_defs tr_defs)
  show "key_polls (trace (snd (proc_iter pf key s))) = key_polls (trace s) + 1"
    using S' by (cases r) (simp_all add: step proc_pace_def fx_defs tr_defs)
  show "grab_thread (snd (proc_iter pf key s)) = grab_thread s"
    using S' by (cases r) (simp_all add: step proc_pace_def fx_defs)
  show "fst (proc_iter pf key s) = Inr () \<Longrightarrow>
           prev_count (snd (proc_iter pf key s)) = n_frames (fps (grab_thread s))"
    using S' by (cases r) (simp_all add: step proc_pace_def fx_defs)
  show "fst (proc_iter pf key s) \<noteq> Inr () \<Longrightarrow>
           prev_count (snd (proc_iter pf key s)) = prev_count s"
    using S' by (cases r) (simp_all add: step proc_pace_def fx_defs)
qed

lemma hook_local_VisualizeOnly: "hook_local VisualizeOnly_process_frame"
  by (simp add: hook_local_def VisualizeOnly_process_frame_def)

lemma process_frame_hook_local: "hook_local process_frame"
  by (simp add: hook_local_def process_frame_def)

lemma AvgFrames_hook_local: "hook_local (AvgFrames_process_frame lib)"
  by (simp add: hook_local_def AvgFrames_process_frame_def set_frame_def emit_def tr_defs
      Let_def split: option.splits)

subsection \<open>The grab loop\<close>







subsection \<open>Schedules\<close>

lemma start_fields:
  "prev_count (start s) = 0"
  "n_frames (fps (grab_thread (start s))) = 0"
  "n_frames (fps (proc_thread (start s))) = 0"
  "frame (start s) = frame s"
  "stop_event (grab_thread (start s)) = stop_event (grab_thread s)"
  "stop_event (proc_thread (start s)) = stop_event (proc_thread s)"
  "pacer (grab_thread (start s)) = pacer (grab_thread s)"
  "pacer (proc_thread (start s)) = pacer (proc_thread s)"
  "transforms (trace (start s)) = transforms (trace s)"
  "key_polls (trace (start s)) = key_polls (trace s)"
  by (simp_all add: start_def grab_thread_loop_init_def proc_thread_loop_init_def fx_defs
      tr_defs Let_def)

lemma fresh_fields:
  "frame (VideoStreamABC_init fs g p) = None"
  "trace (VideoStreamABC_init False g p) = []"
  "stop_event (grab_thread (VideoStreamABC_init fs g p)) = False"
  "stop_event (proc_thread (VideoStreamABC_init fs g p)) = False"
  "pacer (grab_thread (VideoStreamABC_init fs (Some 30) p)) = Some \<lparr>pace = 30\<rparr>"
  "pacer (proc_thread (VideoStreamABC_init fs g (Some 30))) = Some \<lparr>pace = 30\<rparr>"
  "n_frames (fps (grab_thread (VideoStreamABC_init fs g p))) = 0"
  "n_frames (fps (proc_thread (VideoStreamABC_init fs g p))) = 0"
  by (simp_all add: VideoStreamABC_init_def StoppableThread_init_def FPS_init_def Pacer_init_def)

subsection \<open>Fine schedules\<close>

lemma grab_iter_split: "grab_iter r s = grab_count (grab_write r s)"
  by (cases r) (simp add: grab_iter_def grab_write_def grab_count_def fx_defs Let_def)

















subsection \<open>Counting the reads of the grab loop\<close>









lemmas avg_defs = AvgFrames_init_def VideoStreamABC.extend_def AvgFrames.fields_def
  AvgFrames_process_frame_def exact_lib_def ALPHA_def

section \<open>The grab loop writes whatever it reads\<close>

text \<open>
  Claim C10. In every pass of the grab loop the frame value returned by \<^verbatim>\<open>read()\<close>,
  \<^verbatim>\<open>None\<close> included, is written into the shared slot whatever the success flag says,
  replacing the frame that was there, and the grab counter advances by one.
\<close>

theorem grab_iter_writes_slot_unconditionally:
  "frame (grab_iter (got_one, fr) s) = fr \<and>
   SlotWrite GRAB fr \<in> set (trace (grab_iter (got_one, fr) s)) \<and>
   n_frames (fps (grab_thread (grab_iter (got_one, fr) s))) = n_frames (fps (grab_thread s)) + 1"
  by (simp add: grab_iter_fields grab_iter_trace)

section \<open>Order of the steps of a grab pass\<close>

text \<open>
  Claim C6, as amended. A grab pass reads a frame from the source, writes it into the
  shared slot under the lock, applies the pacer if one is configured, and only then
  updates the grab counter: the counter update is the last step, after the pacer, not
  before it.
\<close>

theorem grab_iter_order:
  "trace (grab_iter (got_one, fr) s) =
     trace s @ [StreamRead got_one fr, LockAcquire GRAB, SlotWrite GRAB fr, LockRelease GRAB] @
     (if pacer (grab_thread s) \<noteq> None then [PacerUpdate GRAB] else []) @ [FpsUpdate GRAB]"
  by (rule grab_iter_trace)

text \<open>
  Claim C6 as stated fails: with the default pacing of 30 Hz, the pass that reads frame 5
  calls the pacer before the counter, so its trace is not the one with the counter update
  ahead of the pacer.
\<close>

theorem grab_iter_order_counterexample:
  "trace (grab_iter (True, Some 5)
      (VideoStreamABC_init False (Some 30) (Some 30) :: nat VideoStreamABC)) =
     [StreamRead True (Some 5), LockAcquire GRAB, SlotWrite GRAB (Some 5), LockRelease GRAB,
      PacerUpdate GRAB, FpsUpdate GRAB] \<and>
   trace (grab_iter (True, Some 5)
      (VideoStreamABC_init False (Some 30) (Some 30) :: nat VideoStreamABC)) \<noteq>
     [StreamRead True (Some 5), LockAcquire GRAB, SlotWrite GRAB (Some 5), LockRelease GRAB,
      FpsUpdate GRAB, PacerUpdate GRAB]"
  by (simp add: grab_iter_trace) (simp add: VideoStreamABC_init_def StoppableThread_init_def)

section \<open>What \<open>stop\<close> prints and how it ends\<close>

text \<open>
  Claim C3, as amended. \<^verbatim>\<open>stop()\<close> prints exactly six statistics lines (grab elapsed
  time, grab rate, grab frame count, proc elapsed time, proc rate, proc frame count) on
  standard output and none on standard error, sets both stop events, destroys the windows
  once and ends by raising \<^verbatim>\<open>SystemExit(0)\<close> in the calling thread.
\<close>

theorem stop_statistics:
  "fst (stop s) = Inl (SystemExit 0) \<and>
   stat_lines Stdout (trace (snd (stop s))) = stat_lines Stdout (trace s) @
     [ElapsedTime GRAB, ApproxFPS GRAB, NFrames GRAB (n_frames (fps (grab_thread s))),
      ElapsedTime PROC, ApproxFPS PROC, NFrames PROC (n_frames (fps (proc_thread s)))] \<and>
   stat_lines Stderr (trace (snd (stop s))) = stat_lines Stderr (trace s) \<and>
   is_stopped (grab_thread (snd (stop s))) \<and> is_stopped (proc_thread (snd (stop s))) \<and>
   destroys (trace (snd (stop s))) = destroys (trace s) + 1"
  by (simp add: stop_fst stop_stat_lines_Stdout stop_stat_lines_Stderr stop_destroys
      stop_grab_thread stop_proc_thread is_stopped_def)

text \<open>
  Claim C3 as stated fails: on a freshly constructed pipeline \<^verbatim>\<open>stop()\<close> leaves the
  error stream empty; the six lines are on standard output.
\<close>

theorem stop_statistics_counterexample:
  "stat_lines Stderr (trace (snd (stop
      (VideoStreamABC_init False (Some 30) (Some 30) :: nat VideoStreamABC)))) = [] \<and>
   stat_lines Stdout (trace (snd (stop
      (VideoStreamABC_init False (Some 30) (Some 30) :: nat VideoStreamABC)))) =
     [ElapsedTime GRAB, ApproxFPS GRAB, NFrames GRAB 0,
      ElapsedTime PROC, ApproxFPS PROC, NFrames PROC 0]"
  by (simp add: stop_stat_lines_Stdout stop_stat_lines_Stderr)
     (simp add: VideoStreamABC_init_def StoppableThread_init_def FPS_init_def stat_lines_def)

section \<open>Calling \<open>stop\<close> twice\<close>

text \<open>
  Claim C2, as amended. \<^verbatim>\<open>stop()\<close> has no guard against re-entry: only the stop events
  (and the slot) are the same after a second call as after the first. Each call prints its
  own six statistics lines and destroys the windows again, so two calls give two sets of
  statistics and two releases.
\<close>

theorem stop_twice:
  "stat_lines Stdout (trace (snd (stop (snd (stop s))))) = stat_lines Stdout (trace s) @
     [ElapsedTime GRAB, ApproxFPS GRAB, NFrames GRAB (n_frames (fps (grab_thread s))),
      ElapsedTime PROC, ApproxFPS PROC, NFrames PROC (n_frames (fps (proc_thread s))),
      ElapsedTime GRAB, ApproxFPS GRAB, NFrames GRAB (n_frames (fps (grab_thread s))),
      ElapsedTime PROC, ApproxFPS PROC, NFrames PROC (n_frames (fps (proc_thread s)))] \<and>
   destroys (trace (snd (stop (snd (stop s))))) = destroys (trace s) + 2 \<and>
   grab_thread (snd (stop (snd (stop s)))) = grab_thread (snd (stop s)) \<and>
   proc_thread (snd (stop (snd (stop s)))) = proc_thread (snd (stop s)) \<and>
   frame (snd (stop (snd (stop s)))) = frame (snd (stop s))"
  by (simp add: stop_stat_lines_Stdout stop_destroys stop_grab_thread stop_proc_thread stop_other)

text \<open>
  Claim C2 as stated fails: two calls on a freshly constructed pipeline print twelve lines
  and destroy the windows twice.
\<close>

theorem stop_twice_counterexample:
  "length (stat_lines Stdout (trace (snd (stop (snd (stop
      (VideoStreamABC_init False (Some 30) (Some 30) :: nat VideoStreamABC))))))) = 12 \<and>
   destroys (trace (snd (stop (snd (stop
      (VideoStreamABC_init False (Some 30) (Some 30) :: nat VideoStreamABC)))))) = 2"
  by (simp add: stop_stat_lines_Stdout stop_destroys)
     (simp add: VideoStreamABC_init_def stat_lines_def destroys_def)

section \<open>An absent frame shuts the pipeline down\<close>

text \<open>
  Claim C9. When a proc pass finds the grab counter advanced past its previous
  observation and reads \<^verbatim>\<open>None\<close> from the shared slot, it calls \<^verbatim>\<open>stop()\<close>: the
  statistics are printed, both stop events are set, the windows are destroyed and
  \<^verbatim>\<open>SystemExit(0)\<close> leaves the loop; the cancel key is not polled and the hook is not
  called.
\<close>

theorem proc_iter_absent_frame_shutdown:
  assumes "prev_count s < n_frames (fps (grab_thread s))" and "frame s = None"
  shows "fst (proc_iter pf key s) = Inl (SystemExit 0) \<and>
     is_stopped (grab_thread (snd (proc_iter pf key s))) \<and>
     is_stopped (proc_thread (snd (proc_iter pf key s))) \<and>
     trace (snd (proc_iter pf key s)) = trace s @
       [LockAcquire PROC, SlotRead PROC None, LockRelease PROC,
        FpsStop GRAB, FpsStop PROC,
        Print Stdout (ElapsedTime GRAB), Print Stdout (ApproxFPS GRAB),
        Print Stdout (NFrames GRAB (n_frames (fps (grab_thread s)))),
        Print Stdout (ElapsedTime PROC), Print Stdout (ApproxFPS PROC),
        Print Stdout (NFrames PROC (n_frames (fps (proc_thread s)))),
        DestroyAllWindows]"
  using assms
  by (simp add: proc_iter_absent stop_fst stop_trace stop_grab_thread stop_proc_thread
      is_stopped_def)
     (simp add: locked_get_frame_def emit_def Let_def)

text \<open>
  The hypotheses hold after a started pipeline has made one grab pass whose \<^verbatim>\<open>read()\<close>
  failed and returned \<^verbatim>\<open>None\<close>.
\<close>

theorem proc_iter_absent_frame_shutdown_witness:
  "prev_count (grab_iter (False, None)
       (start (VideoStreamABC_init False (Some 30) (Some 30) :: nat VideoStreamABC)))
     < n_frames (fps (grab_thread (grab_iter (False, None)
       (start (VideoStreamABC_init False (Some 30) (Some 30) :: nat VideoStreamABC))))) \<and>
   frame (grab_iter (False, None)
       (start (VideoStreamABC_init False (Some 30) (Some 30) :: nat VideoStreamABC))) = None \<and>
   fst (proc_iter VisualizeOnly_process_frame 0 (grab_iter (False, None)
       (start (VideoStreamABC_init False (Some 30) (Some 30) :: nat VideoStreamABC))))
     = Inl (SystemExit 0) \<and>
   is_stopped (grab_thread (snd (proc_iter VisualizeOnly_process_frame 0 (grab_iter (False, None)
       (start (VideoStreamABC_init False (Some 30) (Some 30) :: nat VideoStreamABC)))))) \<and>
   is_stopped (proc_thread (snd (proc_iter VisualizeOnly_process_frame 0 (grab_iter (False, None)
       (start (VideoStreamABC_init False (Some 30) (Some 30) :: nat VideoStreamABC))))))"
proof -
  let ?s = "grab_iter (False, None)
       (start (VideoStreamABC_init False (Some 30) (Some 30) :: nat VideoStreamABC))"
  have adv: "prev_count ?s < n_frames (fps (grab_thread ?s))"
    by (simp add: grab_iter_fields) (simp add: init_defs fx_defs Let_def)
  have none: "frame ?s = None"
    by (simp add: grab_iter_fields)
  from proc_iter_absent_frame_shutdown [OF adv none, of VisualizeOnly_process_frame 0] adv none
  show ?thesis by simp
qed

section \<open>When the cancel key is polled\<close>

text \<open>
  Claim C5, as amended. A proc pass polls the render sink for the cancel key at most
  once, and only when it found the grab counter advanced and a frame present in the slot;
  a pass that finds no new frame does not poll the key (only the pacer is applied in every
  pass). The hook is assumed not to poll the key itself.
\<close>

theorem proc_iter_key_polls:
  assumes "hook_local pf"
  shows "key_polls (trace (snd (proc_iter pf key s))) =
     key_polls (trace s) +
     (if prev_count s < n_frames (fps (grab_thread s)) \<and> frame s \<noteq> None then 1 else 0)"
proof (cases "prev_count s < n_frames (fps (grab_thread s))")
  case False
  then show ?thesis by (simp add: proc_iter_idle_effects)
next
  case adv: True
  show ?thesis
  proof (cases "frame s")
    case None
    with adv show ?thesis by (simp add: proc_iter_absent_effects)
  next
    case (Some f)
    show ?thesis
    proof (cases "key = 27")
      case True
      with adv Some show ?thesis by (simp add: proc_iter_cancel_effects)
    next
      case False
      with adv Some assms show ?thesis by (simp add: proc_iter_process_effects)
    qed
  qed
qed

text \<open>
  With the hook of \<^verbatim>\<open>VisualizeOnly\<close>, the pass that follows the first grabbed frame polls
  the key once.
\<close>

theorem proc_iter_key_polls_witness:
  "hook_local (VisualizeOnly_process_frame :: (nat, unit) hook) \<and>
   key_polls (trace (snd (proc_iter VisualizeOnly_process_frame 0 (grab_iter (True, Some 5)
       (start (VideoStreamABC_init False (Some 30) (Some 30) :: nat VideoStreamABC)))))) = 1"
  using proc_iter_key_polls [OF hook_local_VisualizeOnly, of 0 "grab_iter (True, Some 5)
       (start (VideoStreamABC_init False (Some 30) (Some 30) :: nat VideoStreamABC))"]
  by (simp add: hook_local_VisualizeOnly grab_iter_fields grab_iter_trace key_polls_append)
     (simp add: init_defs fx_defs tr_defs Let_def)

text \<open>
  Claim C5 as stated fails: before any frame has been grabbed a proc pass completes
  without polling the key, even with the cancel key (27) pending.
\<close>

theorem proc_iter_key_polls_counterexample:
  "fst (proc_iter VisualizeOnly_process_frame 27
      (start (VideoStreamABC_init False (Some 30) (Some 30) :: nat VideoStreamABC))) = Inr () \<and>
   key_polls (trace (snd (proc_iter VisualizeOnly_process_frame 27
      (start (VideoStreamABC_init False (Some 30) (Some 30) :: nat VideoStreamABC))))) = 0"
  by (simp add: proc_iter_def proc_pace_def init_defs fx_defs tr_defs Let_def)

section \<open>No counter value is processed twice\<close>







section \<open>The grab loop never shuts the pipeline down\<close>





section \<open>The abstract hook\<close>

text \<open>
  Claim C8, as amended. Constructing a pipeline that does not override the hook raises
  nothing; every call of the base \<^verbatim>\<open>process_frame\<close> raises a plain \<^verbatim>\<open>Exception\<close> with
  the message \<^verbatim>\<open>Abstract method process_frame() not implemented!\<close>, which is an instance
  of \<^verbatim>\<open>Exception\<close> and not of \<^verbatim>\<open>NotImplementedError\<close>. The first proc pass that reaches
  the hook (counter advanced, frame present, no cancel key) therefore leaves the proc loop
  with that exception; \<^verbatim>\<open>stop()\<close> is not invoked, so no stop event is set by it.
\<close>

theorem process_frame_abstract_raises:
  "process_frame fr s =
     (Inl (Exception ''Abstract method process_frame() not implemented!''), s) \<and>
   isinstance (Exception ''Abstract method process_frame() not implemented!'') ''Exception'' \<and>
   \<not> isinstance (Exception ''Abstract method process_frame() not implemented!'')
       ''NotImplementedError'' \<and>
   (prev_count s < n_frames (fps (grab_thread s)) \<and> frame s \<noteq> None \<and> key \<noteq> 27 \<and>
    \<not> is_stopped (proc_thread s) \<longrightarrow>
      fst (proc_loop process_frame (key # ks) s) =
        Inl (Exception ''Abstract method process_frame() not implemented!'') \<and>
      transforms (trace (snd (proc_loop process_frame (key # ks) s))) =
        transforms (trace s) @ [frame s] \<and>
      is_stopped (grab_thread (snd (proc_loop process_frame (key # ks) s))) =
        is_stopped (grab_thread s) \<and>
      \<not> is_stopped (proc_thread (snd (proc_loop process_frame (key # ks) s))))"
proof (intro conjI impI)
  show "process_frame fr s =
     (Inl (Exception ''Abstract method process_frame() not implemented!''), s)"
    by (simp add: process_frame_def)
  show "isinstance (Exception ''Abstract method process_frame() not implemented!'') ''Exception''"
    by (simp add: isinstance_def)
  show "\<not> isinstance (Exception ''Abstract method process_frame() not implemented!'')
       ''NotImplementedError''"
    by (simp add: isinstance_def)
next
  assume a: "prev_count s < n_frames (fps (grab_thread s)) \<and> frame s \<noteq> None \<and> key \<noteq> 27 \<and>
    \<not> is_stopped (proc_thread s)"
  then obtain f where f: "frame s = Some f" by auto
  from a f have p: "proc_iter process_frame key s =
      (Inl (Exception ''Abstract method process_frame() not implemented!''),
       emit (ProcessFrame (Some f)) (emit (WaitKey 1) (snd (locked_get_frame PROC s))))"
    by (simp add: proc_iter_process process_frame_def)
  with a show "fst (proc_loop process_frame (key # ks) s) =
        Inl (Exception ''Abstract method process_frame() not implemented!'')"
    by simp
  from a p f show "transforms (trace (snd (proc_loop process_frame (key # ks) s))) =
        transforms (trace s) @ [frame s]"
    by (simp add: locked_get_frame_def emit_def Let_def tr_defs)
  from a p show "is_stopped (grab_thread (snd (proc_loop process_frame (key # ks) s))) =
        is_stopped (grab_thread s)"
    by (simp add: locked_get_frame_def emit_def Let_def)
  from a p show "\<not> is_stopped (proc_thread (snd (proc_loop process_frame (key # ks) s)))"
    by (simp add: locked_get_frame_def emit_def Let_def)
qed

text \<open>
  On a started pipeline of the base class, after the first grabbed frame, the proc loop
  ends in its first pass with the exception and the grab worker is left running.
\<close>

theorem process_frame_abstract_raises_witness:
  "prev_count (grab_iter (True, Some 5)
       (start (VideoStreamABC_init False (Some 30) (Some 30) :: nat VideoStreamABC)))
     < n_frames (fps (grab_thread (grab_iter (True, Some 5)
       (start (VideoStreamABC_init False (Some 30) (Some 30) :: nat VideoStreamABC))))) \<and>
   frame (grab_iter (True, Some 5)
       (start (VideoStreamABC_init False (Some 30) (Some 30) :: nat VideoStreamABC))) \<noteq> None \<and>
   \<not> is_stopped (proc_thread (grab_iter (True, Some 5)
       (start (VideoStreamABC_init False (Some 30) (Some 30) :: nat VideoStreamABC)))) \<and>
   fst (proc_loop process_frame [0, 0] (grab_iter (True, Some 5)
       (start (VideoStreamABC_init False (Some 30) (Some 30) :: nat VideoStreamABC)))) =
     Inl (Exception ''Abstract method process_frame() not implemented!'') \<and>
   \<not> is_stopped (grab_thread (snd (proc_loop process_frame [0, 0] (grab_iter (True, Some 5)
       (start (VideoStreamABC_init False (Some 30) (Some 30) :: nat VideoStreamABC))))))"
proof -
  let ?st = "grab_iter (True, Some 5)
       (start (VideoStreamABC_init False (Some 30) (Some 30) :: nat VideoStreamABC))"
  have pre: "prev_count ?st < n_frames (fps (grab_thread ?st))" "frame ?st \<noteq> None"
    "\<not> is_stopped (proc_thread ?st)" "\<not> is_stopped (grab_thread ?st)"
    by (simp_all add: is_stopped_def grab_iter_fields start_fields fresh_fields)
  from process_frame_abstract_raises [of "Some 5" ?st 0 "[0]"] pre
  show ?thesis by simp
qed

text \<open>
  Claim C8 as stated fails: the error raised for frame 5 on a fresh pipeline is the plain
  \<^verbatim>\<open>Exception\<close>, which is not an instance of \<^verbatim>\<open>NotImplementedError\<close>.
\<close>

theorem process_frame_abstract_counterexample:
  "fst (process_frame (Some 5)
      (VideoStreamABC_init False (Some 30) (Some 30) :: nat VideoStreamABC)) =
     Inl (Exception ''Abstract method process_frame() not implemented!'') \<and>
   \<not> isinstance (Exception ''Abstract method process_frame() not implemented!'')
       ''NotImplementedError''"
  by (simp add: process_frame_def isinstance_def)

section \<open>\<^verbatim>\<open>AvgFrames\<close> writes the shared slot\<close>

text \<open>
  Claim C7 says that no transform writes to the shared frame slot.
  \<^verbatim>\<open>AvgFrames.process_frame\<close> does, from its second call on: once \<^verbatim>\<open>avg_frame\<close> is set,
  a call leaves the new running average in the slot, whatever the library functions
  compute. With frames \<open>[10, 20]\<close> and \<open>[30, 40]\<close> grabbed and each processed in turn,
  the slot holds the grabbed frame \<open>[30, 40]\<close> before the second proc pass and the
  running average \<open>[12, 22]\<close> after it, written by the proc worker.
\<close>

theorem AvgFrames_process_frame_overwrites_slot:
  "frame (snd (AvgFrames_process_frame lib fr (s\<lparr>avg_frame := Some a\<rparr>))) =
     Some (cv2_accumulateWeighted lib (numpy_float32 lib fr) a ALPHA) \<and>
   frame (snd (run (AvgFrames_process_frame exact_lib)
      [GrabStep True (Some [10, 20]), ProcStep 0, GrabStep True (Some [30, 40])]
      (None, start AvgFrames_init))) = Some [30, 40] \<and>
   frame (snd (run (AvgFrames_process_frame exact_lib)
      [GrabStep True (Some [10, 20]), ProcStep 0, GrabStep True (Some [30, 40]), ProcStep 0]
      (None, start AvgFrames_init))) = Some [12, 22] \<and>
   SlotWrite PROC (Some [12, 22]) \<in> set (trace (snd (run (AvgFrames_process_frame exact_lib)
      [GrabStep True (Some [10, 20]), ProcStep 0, GrabStep True (Some [30, 40]), ProcStep 0]
      (None, start AvgFrames_init))))"
proof (intro conjI)
  show "frame (snd (AvgFrames_process_frame lib fr (s\<lparr>avg_frame := Some a\<rparr>))) =
     Some (cv2_accumulateWeighted lib (numpy_float32 lib fr) a ALPHA)"
    by (simp add: AvgFrames_process_frame_def set_frame_def emit_def Let_def)
qed (simp_all add: avg_defs init_defs proc_iter_def grab_iter_def proc_pace_def fx_defs Let_def
      WINDOW_NAME_def)

end
